theory Spec2Isabelle
  imports Main "HOL-Library.Word"
begin

section \<open>A command-line to-do list: the data model of main.go\<close>

text \<open>
  The program keeps a slice of \<open>Task\<close> values. Go's \<open>int\<close> is a 64-bit two's complement
  integer on the usual platforms, so identifiers are 64-bit words: \<open>+\<close> wraps and the
  comparisons of the source are the signed ones. A Go \<open>string\<close> is a sequence of bytes,
  here a \<open>char list\<close>.
\<close>

type_synonym go_int = "64 word"

subsection \<open>The part of Go's \<open>time\<close> package that main.go calls\<close>

text \<open>
  A \<open>time.Time\<close> is an instant with a zone. The model keeps the seconds since
  January 1 of year 1, 00:00:00 UTC (the internal epoch of the package), the nanoseconds
  within the second, and the offset east of UTC that the value's location gives at that
  instant. \<open>time.Time{}\<close>, the value of a declared but unassigned variable, is the epoch
  itself in UTC.
\<close>

record Time =
  sec :: int
  nsec :: nat
  offset :: int

definition zeroTime :: Time where
  "zeroTime = \<lparr>sec = 0, nsec = 0, offset = 0\<rparr>"

definition IsZero :: "Time \<Rightarrow> bool" where
  "IsZero t \<longleftrightarrow> sec t = 0 \<and> nsec t = 0"

definition isLeap :: "int \<Rightarrow> bool" where
  "isLeap year \<longleftrightarrow> year mod 4 = 0 \<and> (year mod 100 \<noteq> 0 \<or> year mod 400 = 0)"

definition daysBefore :: "int \<Rightarrow> int" where
  "daysBefore month =
     [0, 31, 59, 90, 120, 151, 181, 212, 243, 273, 304, 334, 365] ! nat (month - 1)"

definition daysIn :: "int \<Rightarrow> int \<Rightarrow> int" where
  "daysIn month year =
     (if month = 2 \<and> isLeap year then 29 else daysBefore (month + 1) - daysBefore month)"

text \<open>Days from the epoch to January 1 of \<open>year\<close> (proleptic Gregorian calendar).\<close>

definition daysSinceEpoch :: "int \<Rightarrow> int" where
  "daysSinceEpoch year =
     (let y = year - 1 in 365 * y + y div 4 - y div 100 + y div 400)"

text \<open>\<open>time.Date(year, month, day, 0, 0, 0, 0, time.UTC)\<close> for a month in 1..12.\<close>

definition Date :: "int \<Rightarrow> int \<Rightarrow> int \<Rightarrow> Time" where
  "Date year month day =
     (let d = daysSinceEpoch year + daysBefore month
              + (if isLeap year \<and> 3 \<le> month then 1 else 0) + (day - 1)
      in \<lparr>sec = d * 86400, nsec = 0, offset = 0\<rparr>)"

definition isDigit :: "string \<Rightarrow> nat \<Rightarrow> bool" where
  "isDigit s i \<longleftrightarrow> i < length s \<and> 48 \<le> (of_char (s ! i) :: nat) \<and> (of_char (s ! i) :: nat) \<le> 57"

definition digitVal :: "char \<Rightarrow> int" where
  "digitVal c = int (of_char c) - 48"

datatype error = ParseError | SyntaxError | RangeError | NotExist | ReadError | WriteError
  | JSONError | MarshalError

text \<open>\<open>getnum(s, true)\<close>: exactly two decimal digits, and the rest of the input.\<close>

definition getnum :: "string \<Rightarrow> error + (int \<times> string)" where
  "getnum s =
     (if \<not> isDigit s 0 then Inl ParseError
      else if \<not> isDigit s 1 then Inl ParseError
      else Inr (digitVal (s ! 0) * 10 + digitVal (s ! 1), drop 2 s))"

text \<open>The four-digit year of the layout element \<open>2006\<close>.\<close>

definition getyear :: "string \<Rightarrow> error + (int \<times> string)" where
  "getyear s =
     (if length s < 4 \<or> \<not> isDigit s 0 then Inl ParseError
      else if \<not> (isDigit s 1 \<and> isDigit s 2 \<and> isDigit s 3) then Inl ParseError
      else Inr (((digitVal (s ! 0) * 10 + digitVal (s ! 1)) * 10 + digitVal (s ! 2)) * 10
                + digitVal (s ! 3), drop 4 s))"

text \<open>\<open>skip(value, "-")\<close>: the literal text between two layout elements.\<close>

definition skipDash :: "string \<Rightarrow> error + string" where
  "skipDash s = (case s of [] \<Rightarrow> Inl ParseError
                 | c # rest \<Rightarrow> if c = CHR ''-'' then Inr rest else Inl ParseError)"

text \<open>
  \<open>time.Parse("2006-01-02", value)\<close>: year, month and day in digits, the month checked
  when it is read, no text after the day, and the day checked against the month's length
  at the end.
\<close>

definition Parse :: "string \<Rightarrow> error + Time" where
  "Parse v =
     (case getyear v of Inl e \<Rightarrow> Inl e | Inr (year, v1) \<Rightarrow>
     (case skipDash v1 of Inl e \<Rightarrow> Inl e | Inr v2 \<Rightarrow>
     (case getnum v2 of Inl e \<Rightarrow> Inl e | Inr (month, v3) \<Rightarrow>
      if month \<le> 0 \<or> 12 < month then Inl ParseError else
     (case skipDash v3 of Inl e \<Rightarrow> Inl e | Inr v4 \<Rightarrow>
     (case getnum v4 of Inl e \<Rightarrow> Inl e | Inr (day, v5) \<Rightarrow>
      if v5 \<noteq> [] then Inl ParseError
      else if day < 1 \<or> daysIn month year < day then Inl ParseError
      else Inr (Date year month day))))))"

subsection \<open>Tasks and the three operations\<close>

record Task =
  ID :: go_int
  Title :: string
  Done :: bool
  Deadline :: Time

text \<open>The loop of \<open>addTask\<close> over \<open>tasks[1:]\<close>, with the running maximum.\<close>

fun maxID_loop :: "go_int \<Rightarrow> Task list \<Rightarrow> go_int" where
  "maxID_loop maxID [] = maxID"
| "maxID_loop maxID (task # rest) =
     maxID_loop (if maxID <s ID task then ID task else maxID) rest"

definition addTask :: "Task list \<Rightarrow> string \<Rightarrow> string \<Rightarrow> Task list \<times> go_int" where
  "addTask tasks title deadline =
     (let newID = (case tasks of [] \<Rightarrow> 1
                   | t0 # rest \<Rightarrow> maxID_loop (ID t0) rest + 1);
          dl = (if deadline \<noteq> []
                then (case Parse deadline of Inr parsed \<Rightarrow> parsed | Inl err \<Rightarrow> zeroTime)
                else zeroTime);
          newTask = \<lparr>ID = newID, Title = title, Done = False, Deadline = dl\<rparr>
      in (tasks @ [newTask], newID))"

text \<open>
  \<open>deleteTask\<close> and \<open>markDone\<close> scan the slice by index and return at the first task
  whose identifier matches.
\<close>

function deleteTask_from :: "nat \<Rightarrow> Task list \<Rightarrow> go_int \<Rightarrow> Task list \<times> bool" where
  "deleteTask_from i tasks ident =
     (if i < length tasks
      then (if ID (tasks ! i) = ident
            then (take i tasks @ drop (i + 1) tasks, True)
            else deleteTask_from (i + 1) tasks ident)
      else (tasks, False))"
  by pat_completeness auto
termination
  by (relation "measure (\<lambda>(i, tasks, ident). length tasks - i)") auto

definition deleteTask :: "Task list \<Rightarrow> go_int \<Rightarrow> Task list \<times> bool" where
  "deleteTask tasks ident = deleteTask_from 0 tasks ident"

function markDone_from :: "nat \<Rightarrow> Task list \<Rightarrow> go_int \<Rightarrow> Task list \<times> bool" where
  "markDone_from i tasks ident =
     (if i < length tasks
      then (if ID (tasks ! i) = ident
            then (tasks[i := (tasks ! i)\<lparr>Done := True\<rparr>], True)
            else markDone_from (i + 1) tasks ident)
      else (tasks, False))"
  by pat_completeness auto
termination
  by (relation "measure (\<lambda>(i, tasks, ident). length tasks - i)") auto

definition markDone :: "Task list \<Rightarrow> go_int \<Rightarrow> Task list \<times> bool" where
  "markDone tasks ident = markDone_from 0 tasks ident"

definition clearTasks :: "Task list" where
  "clearTasks = []"

subsection \<open>Printing: \<open>%d\<close>, and the layout \<open>2006-01-02\<close>\<close>

function showNat :: "nat \<Rightarrow> string" where
  "showNat n = (if n < 10 then [char_of (48 + n)]
                else showNat (n div 10) @ [char_of (48 + n mod 10)])"
  by pat_completeness auto
termination
  by (relation "measure id") auto

text \<open>The verb \<open>%d\<close> of \<open>fmt.Printf\<close> on an \<open>int\<close>.\<close>

definition showInt :: "int \<Rightarrow> string" where
  "showInt x = (if x < 0 then CHR ''-'' # showNat (nat (- x)) else showNat (nat x))"

text \<open>\<open>appendInt(b, x, width)\<close> of package \<open>time\<close>: zero-padded to the width.\<close>

definition appendInt :: "int \<Rightarrow> nat \<Rightarrow> string" where
  "appendInt x width =
     (let u = showNat (nat \<bar>x\<bar>)
      in (if x < 0 then ''-'' else []) @ replicate (width - length u) CHR ''0'' @ u)"

text \<open>
  Year and day of the year (from 0) of a day counted from the epoch: cycles of 400, 100,
  4 and 1 years, the last year of a cycle taking the leap day.
\<close>

definition yearOfDays :: "int \<Rightarrow> int \<times> int" where
  "yearOfDays d =
     (let n400 = d div 146097; d1 = d mod 146097;
          n100 = min (d1 div 36524) 3; d2 = d1 - 36524 * n100;
          n4 = d2 div 1461; d3 = d2 mod 1461;
          n1 = min (d3 div 365) 3; yday = d3 - 365 * n1
      in (400 * n400 + 100 * n100 + 4 * n4 + n1 + 1, yday))"

text \<open>Month and day of the month from the day of the year.\<close>

definition monthDay :: "int \<Rightarrow> int \<Rightarrow> int \<times> int" where
  "monthDay year yday =
     (if isLeap year \<and> yday = 31 + 29 - 1 then (2, 29)
      else (let day = (if isLeap year \<and> yday > 31 + 29 - 1 then yday - 1 else yday);
                month = day div 31;
                stop = daysBefore (month + 2)
            in if day \<ge> stop then (month + 2, day - stop + 1)
               else (month + 1, day - daysBefore (month + 1) + 1)))"

text \<open>\<open>t.Format("2006-01-02")\<close>: the date in the zone of \<open>t\<close>.\<close>

definition Format :: "Time \<Rightarrow> string" where
  "Format t =
     (let (year, yday) = yearOfDays ((sec t + offset t) div 86400);
          (month, day) = monthDay year yday
      in appendInt year 4 @ ''-'' @ appendInt month 2 @ ''-'' @ appendInt day 2)"

subsection \<open>\<open>strconv.Atoi\<close>\<close>

definition decimal :: "string \<Rightarrow> int" where
  "decimal ds = foldl (\<lambda>n c. n * 10 + digitVal c) 0 ds"

definition Atoi :: "string \<Rightarrow> error + go_int" where
  "Atoi s =
     (let signed = (s \<noteq> [] \<and> (hd s = CHR ''-'' \<or> hd s = CHR ''+''));
          neg = (s \<noteq> [] \<and> hd s = CHR ''-'');
          ds = (if signed then tl s else s)
      in if ds = [] \<or> \<not> list_all (\<lambda>c. 0 \<le> digitVal c \<and> digitVal c \<le> 9) ds
         then Inl SyntaxError
         else if neg then (if decimal ds \<le> 2 ^ 63 then Inr (word_of_int (- decimal ds))
                           else Inl RangeError)
         else (if decimal ds < 2 ^ 63 then Inr (word_of_int (decimal ds))
               else Inl RangeError))"

section \<open>The store\<close>

text \<open>
  The file system as the program sees it: what \<open>tasks.txt\<close> holds (\<open>None\<close> while it
  does not exist), whether it can be read, and whether it can be written or created.
  \<open>json.MarshalIndent\<close> and \<open>json.Unmarshal\<close> belong to Go's library, not to main.go:
  \<open>loadTasks\<close> and \<open>saveTasks\<close> take them as parameters.
\<close>

record fs =
  tasks_txt :: "string option"
  readable :: bool
  writable :: bool

text \<open>\<open>os.ReadFile("tasks.txt")\<close>; the error of a missing file is \<open>NotExist\<close>.\<close>

definition ReadFile :: "fs \<Rightarrow> error + string" where
  "ReadFile w = (case tasks_txt w of None \<Rightarrow> Inl NotExist
                 | Some data \<Rightarrow> if readable w then Inr data else Inl ReadError)"

definition IsNotExist :: "error \<Rightarrow> bool" where
  "IsNotExist err \<longleftrightarrow> err = NotExist"

text \<open>\<open>os.WriteFile("tasks.txt", data, 0644)\<close>: the whole file, or an error.\<close>

definition WriteFile :: "string \<Rightarrow> fs \<Rightarrow> error option \<times> fs" where
  "WriteFile data w = (if writable w then (None, w\<lparr>tasks_txt := Some data\<rparr>)
                       else (Some WriteError, w))"

definition loadTasks :: "(string \<Rightarrow> error + Task list) \<Rightarrow> fs \<Rightarrow> error + Task list" where
  "loadTasks Unmarshal w =
     (case ReadFile w of
        Inl err \<Rightarrow> if IsNotExist err then Inr [] else Inl err
      | Inr file \<Rightarrow> (case Unmarshal file of Inl err \<Rightarrow> Inl err | Inr tasks \<Rightarrow> Inr tasks))"

definition saveTasks :: "(Task list \<Rightarrow> error + string) \<Rightarrow> Task list \<Rightarrow> fs \<Rightarrow> error option \<times> fs" where
  "saveTasks MarshalIndent tasks w =
     (case MarshalIndent tasks of Inl err \<Rightarrow> (Some err, w)
      | Inr data \<Rightarrow> WriteFile data w)"

section \<open>The command dispatcher\<close>

text \<open>
  What the process writes to standard output: text, and for the verb \<open>%v\<close> on an error
  the error itself (its message belongs to the library that made it).
\<close>

datatype piece = Text string | Verr error

definition nl :: string where "nl = [CHR 0x0A]"
definition green :: string where "green = CHR 0x1B # ''[32m''"
definition red :: string where "red = CHR 0x1B # ''[31m''"
definition yellow :: string where "yellow = CHR 0x1B # ''[33m''"
definition reset :: string where "reset = CHR 0x1B # ''[0m''"

definition printUsage :: "piece list" where
  "printUsage =
     [Text (''Usage:'' @ nl),
      Text (''  add \"task name\" [deadline YYYY-MM-DD] - Add a new task with optional deadline'' @ nl),
      Text (''  list                                  - List all tasks'' @ nl),
      Text (''  delete <id>                           - Delete a task by ID'' @ nl),
      Text (''  done <id>                             - Mark a task as done by ID'' @ nl),
      Text (''  clear                                 - Delete all tasks'' @ nl)]"

text \<open>The deadline part of a line of \<open>list\<close>, and the line.\<close>

definition deadlineText :: "Task \<Rightarrow> string" where
  "deadlineText task =
     (if \<not> IsZero (Deadline task) then '' (Deadline: '' @ Format (Deadline task) @ '')''
      else [])"

definition taskLine :: "Task \<Rightarrow> string" where
  "taskLine task =
     (let status = (if Done task then green @ ''Done'' @ reset
                    else red @ ''Not Done'' @ reset)
      in ''#'' @ showInt (sint (ID task)) @ '': '' @ Title task @ '' ['' @ status @ '']''
         @ deadlineText task @ nl)"

text \<open>
  The \<open>switch\<close> of \<open>main\<close>: a branch either ends the process with status 1
  (\<open>os.Exit(1)\<close>) or goes on, with the value of \<open>tasks\<close>, to the code after the switch.
  \<open>Args\<close> is \<open>os.Args\<close>, of length at least 2 here.
\<close>

datatype step = Exit1 "piece list" | Goes "Task list" "piece list"

definition cmdAdd :: "string list \<Rightarrow> Task list \<Rightarrow> step" where
  "cmdAdd Args tasks =
     (if length Args < 3
      then Exit1 (Text (''Error: Task title is required'' @ nl) # printUsage)
      else (let title = Args ! 2;
                deadline = (if length Args > 3 then Args ! 3 else []);
                (tasks', newID) = addTask tasks title deadline
            in Goes tasks' [Text (green @ ''Added task #'' @ showInt (sint newID) @ '':''
                                  @ reset @ '' '' @ title @ nl)]))"

definition cmdList :: "Task list \<Rightarrow> step" where
  "cmdList tasks =
     (if length tasks = 0 then Goes tasks [Text (yellow @ ''No tasks found'' @ reset @ nl)]
      else Goes tasks (Text (''Tasks:'' @ nl) # map (\<lambda>task. Text (taskLine task)) tasks))"

definition cmdDelete :: "string list \<Rightarrow> Task list \<Rightarrow> step" where
  "cmdDelete Args tasks =
     (if length Args < 3
      then Exit1 (Text (''Error: Task ID is required'' @ nl) # printUsage)
      else (case Atoi (Args ! 2) of
              Inl err \<Rightarrow> Exit1 [Text (''Error: ID must be a number'' @ nl)]
            | Inr ident \<Rightarrow>
                (let (tasks', found) = deleteTask tasks ident
                 in if \<not> found
                    then Exit1 [Text (''Error: Task #'' @ showInt (sint ident) @ '' not found'' @ nl)]
                    else Goes tasks' [Text (red @ ''Deleted task #'' @ showInt (sint ident)
                                            @ reset @ nl)])))"

definition cmdDone :: "string list \<Rightarrow> Task list \<Rightarrow> step" where
  "cmdDone Args tasks =
     (if length Args < 3
      then Exit1 (Text (''Error: Task ID is required'' @ nl) # printUsage)
      else (case Atoi (Args ! 2) of
              Inl err \<Rightarrow> Exit1 [Text (''Error: ID must be a number'' @ nl)]
            | Inr ident \<Rightarrow>
                (let (tasks', found) = markDone tasks ident
                 in if \<not> found
                    then Exit1 [Text (''Error: Task #'' @ showInt (sint ident) @ '' not found'' @ nl)]
                    else Goes tasks' [Text (green @ ''Marked task #'' @ showInt (sint ident)
                                            @ '' as done'' @ reset @ nl)])))"

definition cmdClear :: "step" where
  "cmdClear = Goes clearTasks [Text (yellow @ ''All tasks cleared!'' @ reset @ nl)]"

definition dispatch :: "string list \<Rightarrow> Task list \<Rightarrow> step" where
  "dispatch Args tasks =
     (let command = Args ! 1
      in if command = ''add'' then cmdAdd Args tasks
         else if command = ''list'' then cmdList tasks
         else if command = ''delete'' then cmdDelete Args tasks
         else if command = ''done'' then cmdDone Args tasks
         else if command = ''clear'' then cmdClear
         else Exit1 printUsage)"

text \<open>
  A run of the process: the exit status, the output, the file system it leaves, and the
  value of \<open>tasks\<close> when it ends (empty when loading failed).
\<close>

record run =
  status :: nat
  stdout :: "piece list"
  disk :: fs
  memory :: "Task list"

definition main ::
  "(Task list \<Rightarrow> error + string) \<Rightarrow> (string \<Rightarrow> error + Task list) \<Rightarrow> string list \<Rightarrow> fs \<Rightarrow> run" where
  "main MarshalIndent Unmarshal Args w =
     (case loadTasks Unmarshal w of
        Inl err \<Rightarrow>
          \<lparr>status = 1, stdout = [Text ''Error loading tasks: '', Verr err, Text nl],
           disk = w, memory = []\<rparr>
      | Inr tasks \<Rightarrow>
          if length Args < 2
          then \<lparr>status = 1, stdout = printUsage, disk = w, memory = tasks\<rparr>
          else (case dispatch Args tasks of
                  Exit1 out \<Rightarrow> \<lparr>status = 1, stdout = out, disk = w, memory = tasks\<rparr>
                | Goes tasks' out \<Rightarrow>
                    (let command = Args ! 1
                     in if command = ''add'' \<or> command = ''delete'' \<or> command = ''done''
                           \<or> command = ''clear''
                        then (case saveTasks MarshalIndent tasks' w of
                                (Some err, w') \<Rightarrow>
                                  \<lparr>status = 1,
                                   stdout = out @ [Text ''Error saving tasks: '', Verr err, Text nl],
                                   disk = w', memory = tasks'\<rparr>
                              | (None, w') \<Rightarrow>
                                  \<lparr>status = 0, stdout = out, disk = w', memory = tasks'\<rparr>)
                        else \<lparr>status = 0, stdout = out, disk = w, memory = tasks'\<rparr>)))"

section \<open>Notions of the specification\<close>

text \<open>
  The largest identifier of a collection as an integer (0 for the empty collection), and a
  sequence of \<open>add\<close> commands, each run on the collection the one before left, with the
  identifiers they assign.
\<close>

definition priorMax :: "Task list \<Rightarrow> int" where
  "priorMax tasks = (if tasks = [] then 0 else Max (set (map (\<lambda>t. sint (ID t)) tasks)))"

fun addTasks :: "Task list \<Rightarrow> (string \<times> string) list \<Rightarrow> Task list \<times> go_int list" where
  "addTasks tasks [] = (tasks, [])"
| "addTasks tasks ((title, deadline) # reqs) =
     (let (tasks', newID) = addTask tasks title deadline;
          (tasks'', ids) = addTasks tasks' reqs
      in (tasks'', newID # ids))"


section \<open>Properties\<close>

subsection \<open>Auxiliary facts\<close>

lemma sint_maxID_loop:
  "sint (maxID_loop m ts) = Max (insert (sint m) (set (map (\<lambda>t. sint (ID t)) ts)))"
proof (induction ts arbitrary: m)
  case Nil
  show ?case by simp
next
  case (Cons t ts)
  have fin: "finite (set (map (\<lambda>t. sint (ID t)) ts))" by simp
  show ?case
    by (simp add: Cons.IH word_sless_alt Max_insert2 max_def insert_commute)
       (smt (verit) List.finite_set Max_insert Max_singleton finite_imageI finite_insert insert_commute insert_not_empty max_def)
qed

lemma addTask_newID:
  "snd (addTask tasks title deadline) =
     (case tasks of [] \<Rightarrow> 1 | t0 # rest \<Rightarrow> maxID_loop (ID t0) rest + 1)"
  by (simp add: addTask_def Let_def)

lemma sint_maxID: "sint (maxID_loop (ID t0) rest) = priorMax (t0 # rest)"
  by (simp add: sint_maxID_loop priorMax_def)

lemma addTask_snd: "snd (addTask tasks title deadline) = word_of_int (priorMax tasks + 1)"
proof (cases tasks)
  case Nil
  then show ?thesis by (simp add: addTask_newID priorMax_def)
next
  case (Cons t0 rest)
  have "maxID_loop (ID t0) rest = word_of_int (priorMax (t0 # rest))"
    by (simp flip: sint_maxID)
  then show ?thesis using Cons by (simp add: addTask_newID)
qed

lemma priorMax_bounds: "- (2 ^ 63) \<le> priorMax tasks \<and> priorMax tasks < 2 ^ 63"
proof (cases tasks)
  case Nil
  then show ?thesis by (simp add: priorMax_def)
next
  case (Cons t0 rest)
  have "priorMax tasks = sint (maxID_loop (ID t0) rest)"
    using Cons by (simp add: sint_maxID)
  moreover have "- (2 ^ 63) \<le> sint (maxID_loop (ID t0) rest)"
    using sint_ge [of "maxID_loop (ID t0) rest"] by simp
  moreover have "sint (maxID_loop (ID t0) rest) < 2 ^ 63"
    using sint_lt [of "maxID_loop (ID t0) rest"] by simp
  ultimately show ?thesis by simp
qed

lemma sint_word_of_int_64:
  "- (2 ^ 63) \<le> x \<Longrightarrow> x < 2 ^ 63 \<Longrightarrow> sint (word_of_int x :: go_int) = x"
  by (simp add: sint_sbintrunc' signed_take_bit_int_eq_self)

lemma addTask_sint:
  assumes "priorMax tasks + 1 < 2 ^ 63"
  shows "sint (snd (addTask tasks title deadline)) = priorMax tasks + 1"
proof -
  have "- (2 ^ 63) \<le> priorMax tasks + 1" using priorMax_bounds [of tasks] by simp
  then have "sint (word_of_int (priorMax tasks + 1) :: go_int) = priorMax tasks + 1"
    using assms by (rule sint_word_of_int_64)
  then show ?thesis by (simp only: addTask_snd)
qed

lemma addTask_fst_ID:
  "map (\<lambda>t. sint (ID t)) (fst (addTask tasks title deadline)) =
     map (\<lambda>t. sint (ID t)) tasks @ [sint (snd (addTask tasks title deadline))]"
  by (simp add: addTask_def Let_def)

lemma priorMax_addTask:
  assumes "priorMax tasks + 1 < 2 ^ 63"
  shows "priorMax (fst (addTask tasks title deadline)) = priorMax tasks + 1"
proof -
  let ?new = "sint (snd (addTask tasks title deadline))"
  have new: "?new = priorMax tasks + 1"
    using assms by (rule addTask_sint)
  have ne: "fst (addTask tasks title deadline) \<noteq> []"
    by (simp add: addTask_def Let_def)
  have "priorMax (fst (addTask tasks title deadline))
          = Max (set (map (\<lambda>t. sint (ID t)) tasks @ [?new]))"
    using ne by (simp add: priorMax_def flip: addTask_fst_ID)
  also have "\<dots> = priorMax tasks + 1"
  proof (cases "tasks = []")
    case True
    then show ?thesis using new by (simp add: priorMax_def)
  next
    case False
    then have "Max (insert ?new (set (map (\<lambda>t. sint (ID t)) tasks))) = max ?new (priorMax tasks)"
      by (simp add: priorMax_def)
    then show ?thesis using new by simp
  qed
  finally show ?thesis .
qed

lemma addTasks_ids:
  "priorMax tasks + int (length reqs) < 2 ^ 63 \<Longrightarrow>
     map sint (snd (addTasks tasks reqs)) = map (\<lambda>k. priorMax tasks + int k) [1..<Suc (length reqs)]"
proof (induction reqs arbitrary: tasks)
  case Nil
  show ?case by simp
next
  case (Cons r reqs)
  obtain title deadline where r: "r = (title, deadline)" by (cases r)
  let ?tasks' = "fst (addTask tasks title deadline)"
  have small: "priorMax tasks + 1 < 2 ^ 63" using Cons.prems by simp
  have pm: "priorMax ?tasks' = priorMax tasks + 1" by (rule priorMax_addTask [OF small])
  have new: "sint (snd (addTask tasks title deadline)) = priorMax tasks + 1"
    using small by (rule addTask_sint)
  have IH: "map sint (snd (addTasks ?tasks' reqs))
              = map (\<lambda>k. priorMax ?tasks' + int k) [1..<Suc (length reqs)]"
    using Cons.prems pm by (intro Cons.IH) simp
  have shift: "map (\<lambda>k. priorMax tasks + 1 + int k) [1..<Suc (length reqs)]
                 = map (\<lambda>k. priorMax tasks + int k) [2..<Suc (Suc (length reqs))]"
    by (rule nth_equalityI) (simp_all del: upt_Suc)
  have "map sint (snd (addTasks tasks (r # reqs)))
          = sint (snd (addTask tasks title deadline)) # map sint (snd (addTasks ?tasks' reqs))"
    by (simp add: r split: prod.splits)
  also have "\<dots> = (priorMax tasks + 1) # map (\<lambda>k. priorMax tasks + int k) [2..<Suc (Suc (length reqs))]"
    by (simp only: new IH pm shift)
  also have "\<dots> = map (\<lambda>k. priorMax tasks + int k) [1..<Suc (length (r # reqs))]"
    by (simp add: upt_conv_Cons numeral_2_eq_2 del: upt_Suc)
  finally show ?case .
qed


declare deleteTask_from.simps [simp del] markDone_from.simps [simp del]

lemma deleteTask_from_none:
  "(\<And>j. i \<le> j \<Longrightarrow> j < length tasks \<Longrightarrow> ID (tasks ! j) \<noteq> ident) \<Longrightarrow>
     deleteTask_from i tasks ident = (tasks, False)"
proof (induction i tasks ident rule: deleteTask_from.induct)
  case (1 i tasks ident)
  show ?case
  proof (cases "i < length tasks")
    case True
    then have ne: "ID (tasks ! i) \<noteq> ident" using "1.prems" by simp
    have "deleteTask_from (i + 1) tasks ident = (tasks, False)"
      using True ne "1.prems" by (intro "1.IH") simp_all
    then show ?thesis using True ne by (subst deleteTask_from.simps) simp
  next
    case False
    then show ?thesis by (subst deleteTask_from.simps) simp
  qed
qed

lemma markDone_from_none:
  "(\<And>j. i \<le> j \<Longrightarrow> j < length tasks \<Longrightarrow> ID (tasks ! j) \<noteq> ident) \<Longrightarrow>
     markDone_from i tasks ident = (tasks, False)"
proof (induction i tasks ident rule: markDone_from.induct)
  case (1 i tasks ident)
  show ?case
  proof (cases "i < length tasks")
    case True
    then have ne: "ID (tasks ! i) \<noteq> ident" using "1.prems" by simp
    have "markDone_from (i + 1) tasks ident = (tasks, False)"
      using True ne "1.prems" by (intro "1.IH") simp_all
    then show ?thesis using True ne by (subst markDone_from.simps) simp
  next
    case False
    then show ?thesis by (subst markDone_from.simps) simp
  qed
qed


lemma markDone_from_shape:
  "markDone_from i tasks ident = (tasks, False) \<or>
   (\<exists>k<length tasks. ID (tasks ! k) = ident \<and>
      markDone_from i tasks ident = (tasks[k := (tasks ! k)\<lparr>Done := True\<rparr>], True))"
proof (induction i tasks ident rule: markDone_from.induct)
  case (1 i tasks ident)
  show ?case
  proof (cases "i < length tasks")
    case True
    show ?thesis
    proof (cases "ID (tasks ! i) = ident")
      case hit: True
      have "markDone_from i tasks ident = (tasks[i := (tasks ! i)\<lparr>Done := True\<rparr>], True)"
        using True hit by (subst markDone_from.simps) simp
      then show ?thesis using True hit by blast
    next
      case miss: False
      have "markDone_from i tasks ident = markDone_from (i + 1) tasks ident"
        using True miss by (subst markDone_from.simps) simp
      then show ?thesis using "1.IH" [OF True miss] by simp
    qed
  next
    case False
    then show ?thesis by (subst markDone_from.simps) simp
  qed
qed

lemma Parse_zero_date: "Parse ''0001-01-01'' = Inr zeroTime"
  by (simp add: Parse_def getyear_def getnum_def skipDash_def isDigit_def digitVal_def
      daysIn_def daysBefore_def isLeap_def Date_def daysSinceEpoch_def zeroTime_def)

section \<open>The claims\<close>

subsection \<open>C1\<close>

text \<open>
  Claim C1, as amended. \<open>addTask\<close> assigns the largest existing identifier plus one in
  Go's 64-bit arithmetic, 1 for the empty collection. While the largest identifier plus
  the number of \<open>add\<close> calls stays below \<open>2^63\<close>, the k-th call of a sequence is
  assigned the prior maximum plus k: the identifiers increase strictly, from one above
  the prior maximum.
\<close>

theorem C1_add_identifiers:
  "snd (addTask tasks title deadline) = word_of_int (priorMax tasks + 1) \<and>
   (priorMax tasks + int (length reqs) < 2 ^ 63 \<longrightarrow>
      map sint (snd (addTasks tasks reqs))
        = map (\<lambda>k. priorMax tasks + int k) [1..<Suc (length reqs)])"
  using addTask_snd addTasks_ids by blast

theorem C1_witness:
  "snd (addTask [\<lparr>ID = 3, Title = ''a'', Done = True, Deadline = zeroTime\<rparr>,
                 \<lparr>ID = 7, Title = ''b'', Done = False, Deadline = zeroTime\<rparr>,
                 \<lparr>ID = 5, Title = ''c'', Done = False, Deadline = zeroTime\<rparr>] ''d'' []) = 8 \<and>
   map sint (snd (addTasks [\<lparr>ID = 3, Title = ''a'', Done = True, Deadline = zeroTime\<rparr>,
                 \<lparr>ID = 7, Title = ''b'', Done = False, Deadline = zeroTime\<rparr>,
                 \<lparr>ID = 5, Title = ''c'', Done = False, Deadline = zeroTime\<rparr>]
                 [(''d'', []), (''e'', ''2024-03-15''), (''f'', ''soon'')])) = [8, 9, 10]"
  using C1_add_identifiers [of "[\<lparr>ID = 3, Title = ''a'', Done = True, Deadline = zeroTime\<rparr>,
                 \<lparr>ID = 7, Title = ''b'', Done = False, Deadline = zeroTime\<rparr>,
                 \<lparr>ID = 5, Title = ''c'', Done = False, Deadline = zeroTime\<rparr>]" "''d''" "[]"
                 "[(''d'', []), (''e'', ''2024-03-15''), (''f'', ''soon'')]"]
  by (simp add: priorMax_def upt_conv_Cons)

text \<open>At the largest \<open>int\<close> the sum wraps: the new identifier is the smallest one.\<close>

theorem C1_counterexample:
  "sint (ID (\<lparr>ID = 0x7FFFFFFFFFFFFFFF, Title = ''a'', Done = False, Deadline = zeroTime\<rparr>))
      = 9223372036854775807 \<and>
   sint (snd (addTask [\<lparr>ID = 0x7FFFFFFFFFFFFFFF, Title = ''a'', Done = False,
                        Deadline = zeroTime\<rparr>] ''b'' []))
      = - 9223372036854775808"
  by (simp add: addTask_def)

subsection \<open>C3\<close>

text \<open>
  Claim C3. When no task of the collection has the identifier, \<open>deleteTask\<close> and
  \<open>markDone\<close> both report \<open>found = false\<close> and return the collection as it was.
\<close>

theorem C3_not_found_unchanged:
  "\<forall>t\<in>set tasks. ID t \<noteq> ident \<Longrightarrow>
     deleteTask tasks ident = (tasks, False) \<and> markDone tasks ident = (tasks, False)"
  by (simp add: deleteTask_def markDone_def deleteTask_from_none markDone_from_none)

theorem C3_witness:
  "deleteTask [\<lparr>ID = 1, Title = ''a'', Done = False, Deadline = zeroTime\<rparr>,
               \<lparr>ID = 2, Title = ''b'', Done = True, Deadline = zeroTime\<rparr>] 5
     = ([\<lparr>ID = 1, Title = ''a'', Done = False, Deadline = zeroTime\<rparr>,
         \<lparr>ID = 2, Title = ''b'', Done = True, Deadline = zeroTime\<rparr>], False) \<and>
   markDone [\<lparr>ID = 1, Title = ''a'', Done = False, Deadline = zeroTime\<rparr>,
             \<lparr>ID = 2, Title = ''b'', Done = True, Deadline = zeroTime\<rparr>] 5
     = ([\<lparr>ID = 1, Title = ''a'', Done = False, Deadline = zeroTime\<rparr>,
         \<lparr>ID = 2, Title = ''b'', Done = True, Deadline = zeroTime\<rparr>], False)"
  using C3_not_found_unchanged [of "[\<lparr>ID = 1, Title = ''a'', Done = False, Deadline = zeroTime\<rparr>,
               \<lparr>ID = 2, Title = ''b'', Done = True, Deadline = zeroTime\<rparr>]" 5]
  by simp

subsection \<open>C4\<close>

text \<open>
  Claim C4. \<open>loadTasks\<close> returns the empty collection and no error when \<open>tasks.txt\<close>
  does not exist, and returns the error of \<open>json.Unmarshal\<close> when the file is there, can
  be read, and does not parse.
\<close>

theorem C4_load_missing_or_corrupt:
  "(tasks_txt w = None \<longrightarrow> loadTasks Unmarshal w = Inr []) \<and>
   (tasks_txt w = Some data \<and> readable w \<and> Unmarshal data = Inl err
      \<longrightarrow> loadTasks Unmarshal w = Inl err)"
  by (simp add: loadTasks_def ReadFile_def IsNotExist_def)

theorem C4_witness:
  "loadTasks (\<lambda>data. if data = ''[]'' then Inr [] else Inl JSONError)
     \<lparr>tasks_txt = None, readable = True, writable = True\<rparr> = Inr [] \<and>
   loadTasks (\<lambda>data. if data = ''[]'' then Inr [] else Inl JSONError)
     \<lparr>tasks_txt = Some ''[{'', readable = True, writable = True\<rparr> = Inl JSONError"
  using C4_load_missing_or_corrupt [of "\<lparr>tasks_txt = None, readable = True, writable = True\<rparr>"
      "\<lambda>data. if data = ''[]'' then Inr [] else Inl JSONError"]
    C4_load_missing_or_corrupt [of "\<lparr>tasks_txt = Some ''[{'', readable = True, writable = True\<rparr>"
      "\<lambda>data. if data = ''[]'' then Inr [] else Inl JSONError" "''[{''" JSONError]
  by simp

subsection \<open>C5\<close>

text \<open>
  Claim C5. A non-empty deadline argument that \<open>time.Parse\<close> rejects does not make
  \<open>add\<close> fail: the task is appended with the zero \<open>time.Time\<close>, that is with no
  deadline, and the command goes on to print its confirmation.
\<close>

theorem C5_unparsable_deadline:
  "deadline \<noteq> [] \<Longrightarrow> Parse deadline = Inl err \<Longrightarrow>
     addTask tasks title deadline
       = (tasks @ [\<lparr>ID = word_of_int (priorMax tasks + 1), Title = title, Done = False,
                    Deadline = zeroTime\<rparr>], word_of_int (priorMax tasks + 1)) \<and>
     cmdAdd [prog, ''add'', title, deadline] tasks
       = Goes (tasks @ [\<lparr>ID = word_of_int (priorMax tasks + 1), Title = title, Done = False,
                         Deadline = zeroTime\<rparr>])
           [Text (green @ ''Added task #'' @ showInt (sint (word_of_int (priorMax tasks + 1) :: go_int))
                  @ '':'' @ reset @ '' '' @ title @ nl)]"
proof -
  assume ne: "deadline \<noteq> []" and bad: "Parse deadline = Inl err"
  have new: "snd (addTask tasks title deadline) = word_of_int (priorMax tasks + 1)"
    by (rule addTask_snd)
  have "fst (addTask tasks title deadline)
          = tasks @ [\<lparr>ID = snd (addTask tasks title deadline), Title = title, Done = False,
                       Deadline = zeroTime\<rparr>]"
    using ne bad by (simp add: addTask_def Let_def)
  then have a: "addTask tasks title deadline
       = (tasks @ [\<lparr>ID = word_of_int (priorMax tasks + 1), Title = title, Done = False,
                    Deadline = zeroTime\<rparr>], word_of_int (priorMax tasks + 1))"
    using new by (metis prod.collapse)
  show ?thesis
    by (rule conjI [OF a]) (simp add: cmdAdd_def a)
qed

theorem C5_witness:
  "''next week'' \<noteq> [] \<and> Parse ''next week'' = Inl ParseError \<and>
   addTask [\<lparr>ID = 4, Title = ''a'', Done = False, Deadline = zeroTime\<rparr>] ''b'' ''next week''
     = ([\<lparr>ID = 4, Title = ''a'', Done = False, Deadline = zeroTime\<rparr>,
         \<lparr>ID = 5, Title = ''b'', Done = False, Deadline = zeroTime\<rparr>], 5)"
proof -
  have ne: "''next week'' \<noteq> []" by simp
  have bad: "Parse ''next week'' = Inl ParseError"
    by (simp add: Parse_def getyear_def isDigit_def)
  show ?thesis
    using ne bad C5_unparsable_deadline [OF ne bad,
        of "[\<lparr>ID = 4, Title = ''a'', Done = False, Deadline = zeroTime\<rparr>]" "''b''" "''todo''"]
    by (simp add: priorMax_def)
qed

subsection \<open>C6\<close>

text \<open>
  Claim C6, as amended. The \<open>add\<close> command checks that a title argument is there, not
  what it holds: without one it ends with status 1 and adds nothing; with one, the empty
  string included, it appends a task whose title is that argument.
\<close>

theorem C6_add_stores_title:
  "(length Args < 3 \<longrightarrow>
      cmdAdd Args tasks = Exit1 (Text (''Error: Task title is required'' @ nl) # printUsage)) \<and>
   (3 \<le> length Args \<longrightarrow>
      (\<exists>ident dl out. cmdAdd Args tasks
         = Goes (tasks @ [\<lparr>ID = ident, Title = Args ! 2, Done = False, Deadline = dl\<rparr>]) out))"
  by (simp add: cmdAdd_def addTask_def Let_def)

theorem C6_witness:
  "cmdAdd [''todo'', ''add''] [] = Exit1 (Text (''Error: Task title is required'' @ nl) # printUsage) \<and>
   (\<exists>ident dl out. cmdAdd [''todo'', ''add'', ''Buy milk''] []
         = Goes ([] @ [\<lparr>ID = ident, Title = ''Buy milk'', Done = False, Deadline = dl\<rparr>]) out)"
  using C6_add_stores_title [of "[''todo'', ''add'']" "[]"]
    C6_add_stores_title [of "[''todo'', ''add'', ''Buy milk'']" "[]"]
  by simp

text \<open>The empty string as title argument, on an empty collection.\<close>

theorem C6_counterexample:
  "cmdAdd [''todo'', ''add'', []] []
     = Goes [\<lparr>ID = 1, Title = [], Done = False, Deadline = zeroTime\<rparr>]
         [Text (green @ ''Added task #1:'' @ reset @ '' '' @ nl)]"
  by code_simp

subsection \<open>C7\<close>

text \<open>
  Claim C7, as amended. Every command ends with status 1 when loading fails. When loading
  succeeds, \<open>list\<close> ends with status 0, and \<open>clear\<close> ends with status 0 exactly when
  saving the empty collection succeeds.
\<close>

theorem C7_list_clear_status:
  "(loadTasks Unmarshal w = Inl err \<longrightarrow> status (main MarshalIndent Unmarshal Args w) = 1) \<and>
   (loadTasks Unmarshal w = Inr tasks \<and> 2 \<le> length Args \<and> Args ! 1 = ''list''
      \<longrightarrow> status (main MarshalIndent Unmarshal Args w) = 0) \<and>
   (loadTasks Unmarshal w = Inr tasks \<and> 2 \<le> length Args \<and> Args ! 1 = ''clear''
      \<longrightarrow> status (main MarshalIndent Unmarshal Args w)
            = (if fst (saveTasks MarshalIndent [] w) = None then 0 else 1))"
  by (auto simp: main_def dispatch_def cmdList_def cmdClear_def clearTasks_def Let_def
      split: sum.splits prod.splits option.splits)

theorem C7_witness:
  "status (main (\<lambda>tasks. Inr ''[]'') (\<lambda>data. Inr []) [''todo'', ''list'']
      \<lparr>tasks_txt = Some ''[]'', readable = True, writable = False\<rparr>) = 0 \<and>
   status (main (\<lambda>tasks. Inr ''[]'') (\<lambda>data. Inr []) [''todo'', ''clear'']
      \<lparr>tasks_txt = None, readable = True, writable = True\<rparr>) = 0"
proof -
  have l1: "loadTasks (\<lambda>data. Inr []) \<lparr>tasks_txt = Some ''[]'', readable = True, writable = False\<rparr> = Inr []"
    by (simp add: loadTasks_def ReadFile_def)
  have l2: "loadTasks (\<lambda>data. Inr []) \<lparr>tasks_txt = None, readable = True, writable = True\<rparr> = Inr []"
    by (simp add: loadTasks_def ReadFile_def IsNotExist_def)
  have s2: "fst (saveTasks (\<lambda>tasks. Inr ''[]'') [] \<lparr>tasks_txt = None, readable = True, writable = True\<rparr>) = None"
    by (simp add: saveTasks_def WriteFile_def)
  show ?thesis
    using l1 l2 s2
      C7_list_clear_status [of "\<lambda>data. Inr []" "\<lparr>tasks_txt = Some ''[]'', readable = True, writable = False\<rparr>"
        _ "\<lambda>tasks. Inr ''[]''" "[''todo'', ''list'']" "[]"]
      C7_list_clear_status [of "\<lambda>data. Inr []" "\<lparr>tasks_txt = None, readable = True, writable = True\<rparr>"
        _ "\<lambda>tasks. Inr ''[]''" "[''todo'', ''clear'']" "[]"]
    by simp
qed

text \<open>\<open>list\<close> on a file that cannot be read, \<open>clear\<close> on one that cannot be written.\<close>

theorem C7_counterexample:
  "status (main (\<lambda>tasks. Inr ''[]'') (\<lambda>data. Inr []) [''todo'', ''list'']
      \<lparr>tasks_txt = Some ''[]'', readable = False, writable = True\<rparr>) = 1 \<and>
   status (main (\<lambda>tasks. Inr ''[]'') (\<lambda>data. Inr []) [''todo'', ''clear'']
      \<lparr>tasks_txt = Some ''[]'', readable = True, writable = False\<rparr>) = 1"
  by (simp add: main_def loadTasks_def ReadFile_def IsNotExist_def dispatch_def cmdClear_def
      saveTasks_def WriteFile_def)

subsection \<open>C8\<close>




subsection \<open>C9\<close>

text \<open>
  Claim C9. \<open>markDone\<close> keeps the length and the order of the collection; at every
  position the identifier, the title and the deadline are those of the input and a flag
  that was set stays set; a task with another identifier is unchanged; and at most one
  position differs from the input.
\<close>

theorem C9_markDone_frame:
  "length (fst (markDone tasks ident)) = length tasks \<and>
   (\<forall>i<length tasks.
       ID (fst (markDone tasks ident) ! i) = ID (tasks ! i) \<and>
       Title (fst (markDone tasks ident) ! i) = Title (tasks ! i) \<and>
       Deadline (fst (markDone tasks ident) ! i) = Deadline (tasks ! i) \<and>
       (Done (tasks ! i) \<longrightarrow> Done (fst (markDone tasks ident) ! i)) \<and>
       (ID (tasks ! i) \<noteq> ident \<longrightarrow> fst (markDone tasks ident) ! i = tasks ! i)) \<and>
   (\<forall>i<length tasks. \<forall>j<length tasks.
       fst (markDone tasks ident) ! i \<noteq> tasks ! i \<and> fst (markDone tasks ident) ! j \<noteq> tasks ! j
       \<longrightarrow> i = j)"
proof -
  consider "markDone tasks ident = (tasks, False)"
    | k where "k < length tasks" "ID (tasks ! k) = ident"
        "markDone tasks ident = (tasks[k := (tasks ! k)\<lparr>Done := True\<rparr>], True)"
    using markDone_from_shape [of 0 tasks ident] unfolding markDone_def by blast
  then show ?thesis
  proof cases
    case 1
    then show ?thesis by simp
  next
    case 2
    then show ?thesis by (auto simp: nth_list_update)
  qed
qed

theorem C9_witness:
  "fst (markDone [\<lparr>ID = 1, Title = ''a'', Done = False, Deadline = zeroTime\<rparr>,
                  \<lparr>ID = 2, Title = ''b'', Done = False, Deadline = zeroTime\<rparr>] 2) ! 0
     = \<lparr>ID = 1, Title = ''a'', Done = False, Deadline = zeroTime\<rparr> \<and>
   Title (fst (markDone [\<lparr>ID = 1, Title = ''a'', Done = False, Deadline = zeroTime\<rparr>,
                  \<lparr>ID = 2, Title = ''b'', Done = False, Deadline = zeroTime\<rparr>] 2) ! 1) = ''b''"
  using C9_markDone_frame [of "[\<lparr>ID = 1, Title = ''a'', Done = False, Deadline = zeroTime\<rparr>,
                  \<lparr>ID = 2, Title = ''b'', Done = False, Deadline = zeroTime\<rparr>]" 2]
  by (simp add: All_less_Suc)

subsection \<open>C10\<close>

text \<open>
  Claim C10. The deadline \<open>0001-01-01\<close> parses to the zero \<open>time.Time\<close>: \<open>addTask\<close>
  returns what it returns with no deadline, and \<open>list\<close> prints no deadline for the task.
\<close>

theorem C10_zero_date_is_no_deadline:
  "Parse ''0001-01-01'' = Inr zeroTime \<and>
   addTask tasks title ''0001-01-01'' = addTask tasks title [] \<and>
   Deadline (last (fst (addTask tasks title ''0001-01-01''))) = zeroTime \<and>
   deadlineText (last (fst (addTask tasks title ''0001-01-01''))) = [] \<and>
   cmdList (fst (addTask tasks title ''0001-01-01'')) = cmdList (fst (addTask tasks title []))"
  by (simp add: Parse_zero_date addTask_def Let_def deadlineText_def IsZero_def zeroTime_def)

theorem C10_witness:
  "addTask [] ''x'' ''0001-01-01'' = addTask [] ''x'' [] \<and>
   deadlineText (last (fst (addTask [] ''x'' ''0001-01-01''))) = []"
  using C10_zero_date_is_no_deadline [of "[]" "''x''"] by blast

end
